theory Spec2Isabelle
  imports Complex_Main
begin

section \<open>Field-of-view geometry\<close>

text \<open>
  The selector computes with IEEE doubles (Python \<open>float\<close>, numpy). The development
  idealises them as real numbers: \<open>np.pi\<close> is \<open>pi\<close>, and \<open>np.sin\<close>, \<open>np.cos\<close>,
  \<open>np.arcsin\<close> are the real functions. Inside the last branch of \<open>query_bounds\<close> with
  \<open>0 \<le> r\<close> the quotient \<open>sin r / cos dec\<close> lies in \<open>[0, 1)\<close>, where \<open>arcsin\<close> is the
  mathematical inverse sine. For \<open>r < 0\<close> (a negative centre frequency) the quotient can
  leave \<open>[-1, 1]\<close>: numpy then yields nan, for which both comparisons of the branch
  are false, and \<open>arcsin\<close> is some real number; no statement below rests on its value
  there.

  A bounding box is the four-element list \<open>[ra_min, ra_max, dec_min, dec_max]\<close> of the
  source, here a quadruple in the same order.
\<close>

type_synonym box = "real \<times> real \<times> real \<times> real"

definition query_bounds :: "real \<Rightarrow> real \<Rightarrow> real \<Rightarrow> box list" where
  "query_bounds ra dec r =
     (if dec + r \<ge> pi / 2 then
        (let dec_max = pi / 2;
             dec_min = dec - r;
             ra_min = 0;
             ra_max = 2 * pi
         in [(ra_min, ra_max, dec_min, dec_max)])
      else if dec - r \<le> - pi / 2 then
        (let dec_min = pi / 2;
             dec_max = dec + r;
             ra_min = 0;
             ra_max = 2 * pi
         in [(ra_min, ra_max, dec_min, dec_max)])
      else
        (let dec_min = dec - r;
             dec_max = dec + r;
             ra_off = arcsin (sin r / cos dec);
             ra_min = ra - ra_off;
             ra_max = ra + ra_off
         in if ra_min < 0 then
              (let ra_min_0 = 2 * pi - ra_min;
                   ra_max_0 = 0;
                   ra_min_1 = 0;
                   ra_max_1 = ra_max
               in [(ra_min_0, ra_max_0, dec_min, dec_max),
                   (ra_min_1, ra_max_1, dec_min, dec_max)])
            else if ra_max > 2 * pi then
              (let ra_min_0 = ra_min;
                   ra_max_0 = 2 * pi;
                   ra_min_1 = 0;
                   ra_max_1 = ra_max - 2 * pi
               in [(ra_min_0, ra_max_0, dec_min, dec_max),
                   (ra_min_1, ra_max_1, dec_min, dec_max)])
            else [(ra_min, ra_max, dec_min, dec_max)]))"

section \<open>The catalog query\<close>

text \<open>
  A row of the table \<open>target_list\<close> with its columns \<open>source_id\<close>, \<open>ra\<close>, \<open>decl\<close>
  and \<open>dist_c\<close> (coordinates in degrees).
\<close>

datatype target_row =
  Target_row (row_source_id: string) (row_ra: real) (row_decl: real) (row_dist_c: real)

text \<open>
  The SQL texts that \<open>calculate_targets\<close> formats, as syntax trees with the formatted
  numbers as arguments:
  \<^item> \<open>Select_target_list\<close>: \<^verbatim>\<open>SELECT ... FROM target_list\<close>;
  \<^item> \<open>Select_one_box a b c d\<close>: the same with
    \<^verbatim>\<open>WHERE (ra > a AND ra < b) AND (decl > c AND decl < d)\<close>;
  \<^item> \<open>Select_two_boxes a b c d e f\<close>: the same with
    \<^verbatim>\<open>WHERE ((ra > a AND ra < b) OR (ra > c AND ra < d)) AND (decl > e AND decl < f)\<close>;
  \<^item> \<open>Select_separation q a b c d\<close>: \<^verbatim>\<open>SELECT ... FROM (q) as T WHERE
    ACOS(SIN(RADIANS(decl))*SIN(a)+COS(RADIANS(decl))*COS(b)*COS(c-RADIANS(ra)))<d\<close>.
  Every query selects all four columns.
\<close>

datatype sql_query =
    Select_target_list
  | Select_one_box real real real real
  | Select_two_boxes real real real real real real
  | Select_separation sql_query real real real real

definition deg2rad :: "real \<Rightarrow> real" where
  "deg2rad x = x * (pi / 180)"

definition rad2deg :: "real \<Rightarrow> real" where
  "rad2deg x = x * (180 / pi)"

definition rad2deg_box :: "box \<Rightarrow> box" where
  "rad2deg_box b = (case b of (b0, b1, b2, b3) \<Rightarrow> (rad2deg b0, rad2deg b1, rad2deg b2, rad2deg b3))"

text \<open>SQL's \<open>RADIANS\<close>, and \<open>ACOS(x) < d\<close>: \<open>ACOS\<close> is \<open>NULL\<close> outside \<open>[-1, 1]\<close>, and
  a \<open>WHERE\<close> clause that is \<open>NULL\<close> drops the row.\<close>

definition radians :: "real \<Rightarrow> real" where
  "radians x = x * pi / 180"

definition acos_less :: "real \<Rightarrow> real \<Rightarrow> bool" where
  "acos_less x d = (if - 1 \<le> x \<and> x \<le> 1 then arccos x < d else False)"

definition separation_where :: "real \<Rightarrow> real \<Rightarrow> real \<Rightarrow> real \<Rightarrow> target_row \<Rightarrow> bool" where
  "separation_where a b c d t =
     acos_less (sin (radians (row_decl t)) * sin a
                + cos (radians (row_decl t)) * cos b * cos (c - radians (row_ra t))) d"

definition one_box_where :: "real \<Rightarrow> real \<Rightarrow> real \<Rightarrow> real \<Rightarrow> target_row \<Rightarrow> bool" where
  "one_box_where a b c d t =
     ((row_ra t > a \<and> row_ra t < b) \<and> (row_decl t > c \<and> row_decl t < d))"

definition two_boxes_where ::
  "real \<Rightarrow> real \<Rightarrow> real \<Rightarrow> real \<Rightarrow> real \<Rightarrow> real \<Rightarrow> target_row \<Rightarrow> bool" where
  "two_boxes_where a b c d e f t =
     (((row_ra t > a \<and> row_ra t < b) \<or> (row_ra t > c \<and> row_ra t < d))
      \<and> (row_decl t > e \<and> row_decl t < f))"

text \<open>What a query returns on a table. No query has an \<open>ORDER BY\<close>; the rows are kept
  in the order of the table.\<close>

fun run_query :: "target_row list \<Rightarrow> sql_query \<Rightarrow> target_row list" where
  "run_query tbl Select_target_list = tbl"
| "run_query tbl (Select_one_box a b c d) = filter (one_box_where a b c d) tbl"
| "run_query tbl (Select_two_boxes a b c d e f) = filter (two_boxes_where a b c d e f) tbl"
| "run_query tbl (Select_separation q a b c d) =
     filter (separation_where a b c d) (run_query tbl q)"

text \<open>
  The rows that the \<open>WHERE\<close> clause with \<open>ACOS\<close> is applied to: in
  \<^verbatim>\<open>SELECT ... FROM (q) as T WHERE ACOS(...) < d\<close> these are the rows of the derived
  table \<open>T\<close>, the result of \<open>q\<close>. The other queries have no such clause.
\<close>

fun separation_inputs :: "target_row list \<Rightarrow> sql_query \<Rightarrow> target_row list" where
  "separation_inputs tbl (Select_separation q a b c d) = run_query tbl q"
| "separation_inputs tbl Select_target_list = []"
| "separation_inputs tbl (Select_one_box a b c d) = []"
| "separation_inputs tbl (Select_two_boxes a b c d e f) = []"

text \<open>The query building of \<open>calculate_targets\<close>: \<open>box_query\<close> from the bounds (converted
  to degrees), then \<open>targets_query\<close> around it.\<close>

definition box_query :: "box list \<Rightarrow> sql_query" where
  "box_query bounds =
     (if length bounds > 1 then
        (let box_1 = rad2deg_box (bounds ! 0);
             box_2 = rad2deg_box (bounds ! 1)
         in case (box_1, box_2) of
              ((b10, b11, b12, b13), (b20, b21, b22, b23)) \<Rightarrow>
                Select_two_boxes b10 b11 b20 b21 b12 b13)
      else if length bounds = 1 then
        (let box = rad2deg_box (bounds ! 0)
         in case box of (b0, b1, b2, b3) \<Rightarrow> Select_one_box b0 b1 b2 b3)
      else Select_target_list)"

definition targets_query :: "sql_query \<Rightarrow> real \<Rightarrow> real \<Rightarrow> real \<Rightarrow> sql_query" where
  "targets_query bq ra_deg dec_deg beam_radius =
     Select_separation bq (deg2rad dec_deg) (deg2rad dec_deg) (deg2rad ra_deg) beam_radius"

section \<open>Formatting the target list\<close>

text \<open>
  JSON values. \<open>json.dumps\<close> returns the text of a value; the text is represented by
  the value it denotes. A Python \<open>dict\<close> keeps the order in which its keys were
  inserted, and \<open>json.dumps\<close> writes them in that order: an object is an association
  list.
\<close>

datatype json =
    JString string
  | JNumber real
  | JObject "(string \<times> json) list"
  | JArray "json list"

text \<open>The body of the loop over the rows of the dataframe, and the loop itself, which
  appends to \<open>output_list\<close>.\<close>

definition source_dict :: "target_row \<Rightarrow> json" where
  "source_dict t =
     JObject [(''source_id'', JString (row_source_id t)),
              (''ra'', JNumber (row_ra t)),
              (''dec'', JNumber (row_decl t))]"

fun format_loop :: "target_row list \<Rightarrow> json list \<Rightarrow> json list" where
  "format_loop [] output_list = output_list"
| "format_loop (t # df) output_list = format_loop df (output_list @ [source_dict t])"

definition format_targets :: "target_row list \<Rightarrow> json \<Rightarrow> json" where
  "format_targets df pointing_dict = JArray (format_loop df [pointing_dict])"

section \<open>The listener\<close>

text \<open>
  Exceptions. \<open>Catalog_error\<close> stands for whatever the database layer raises when the
  query cannot be executed. \<open>Non_finite\<close> is no exception of the source: it marks a
  message whose numbers include an infinity or a nan, on which the source goes on
  computing in IEEE arithmetic, outside the real numbers of this development.
\<close>

datatype exn = ValueError | ZeroDivisionError | Catalog_error | Non_finite

text \<open>The log, with the arguments of each message in place of its formatted text (the
  elapsed seconds of the retrieval are left out).\<close>

datatype log_entry =
    Info_starting
  | Info_listening string
  | Info_processing string
  | Info_calculating string real real
  | Info_applying_bounding_box
  | Info_retrieved nat
  | Warning_unrecognised string

text \<open>
  The world outside the selector: the keys of the Redis server, the messages published
  (channel and text, oldest first), the queries sent to the database, and the log.
\<close>

record world =
  redis :: "string \<rightharpoonup> json"
  published :: "(string \<times> string) list"
  queries :: "sql_query list"
  logged :: "log_entry list"

text \<open>The fields of \<open>self\<close> that the listener reads. The engine answers a query with
  rows or raises.\<close>

record selector =
  pointing_channel :: string
  targets_channel :: string
  engine :: "sql_query \<Rightarrow> exn + target_row list"

definition log_entry :: "log_entry \<Rightarrow> world \<Rightarrow> world" where
  "log_entry e w = w\<lparr>logged := logged w @ [e]\<rparr>"

text \<open>\<open>scipy.constants.c\<close>, the speed of light in m/s.\<close>

definition speed_of_light :: real where
  "speed_of_light = 299792458"

text \<open>
  \<open>calculate_targets\<close>. A Python float division by zero raises \<open>ZeroDivisionError\<close>.
  An exception leaves the function at once; what was logged before stays logged.
\<close>

definition beam_radius_of :: "real \<Rightarrow> real" where
  "beam_radius_of fecenter = 0.5 * (speed_of_light / (fecenter * 1000000)) / 25.0"

definition calculate_targets ::
  "selector \<Rightarrow> string \<Rightarrow> string \<Rightarrow> real \<Rightarrow> real \<Rightarrow> real \<Rightarrow> string \<Rightarrow> world
     \<Rightarrow> (exn + unit) \<times> world" where
  "calculate_targets self subarray target_name ra_deg dec_deg fecenter obsid w =
     (let w1 = log_entry (Info_calculating target_name ra_deg dec_deg) w
      in if fecenter * 1000000 = 0 then (Inl ZeroDivisionError, w1)
         else
           (let beam_radius = beam_radius_of fecenter;
                w2 = log_entry Info_applying_bounding_box w1;
                bounds = query_bounds (deg2rad ra_deg) (deg2rad dec_deg) beam_radius;
                query = targets_query (box_query bounds) ra_deg dec_deg beam_radius;
                w3 = w2\<lparr>queries := queries w2 @ [query]\<rparr>
            in case engine self query of
                 Inl e \<Rightarrow> (Inl e, w3)
               | Inr target_list \<Rightarrow>
                   (let w4 = log_entry (Info_retrieved (length target_list)) w3;
                        pointing_dict =
                          JObject [(''source_id'', JString target_name),
                                   (''ra'', JNumber ra_deg),
                                   (''dec'', JNumber dec_deg)];
                        json_list = format_targets target_list pointing_dict;
                        w5 = w4\<lparr>redis := (redis w4)(''targets:'' @ obsid \<mapsto> json_list)\<rparr>;
                        w6 = w5\<lparr>published :=
                                  published w5 @ [(targets_channel self, ''targets:'' @ obsid)]\<rparr>
                    in (Inr (), w6))))"

text \<open>
  The builtin \<open>float\<close> is no code of the selector: the listener below takes it as a
  parameter, a function from a text to the float it denotes, with \<open>None\<close> where
  \<open>float\<close> raises \<open>ValueError\<close> (on a text it raises nothing else). A float is a real
  number, or an infinity or a nan.

  \<open>py_float\<close> is the builtin on the texts of this development, whose characters are the
  code points up to 255. A text with a character from 128 on first has its characters
  from 127 on replaced, Unicode white space (133 and 160) by a blank and any other by a
  question mark, which ends the text; among these code points only the ASCII digits are
  decimal digits. Then the white space of C (blank and 9 to 13) is dropped at both ends.
  What remains is an optional sign and either one of \<open>inf\<close>, \<open>infinity\<close>, \<open>nan\<close> in any
  case, or a decimal number: digits with an optional point (\<open>12\<close>, \<open>12.\<close>, \<open>.5\<close>,
  \<open>12.5\<close>), then an optional exponent (\<open>e\<close> or \<open>E\<close>, optional sign, digits). Digits
  may be grouped by single underscores. Any other text raises \<open>ValueError\<close>. The value
  is the real number written, with no rounding, overflow or underflow.
\<close>

datatype pyfloat = Finite real | Inf_or_nan

definition is_ascii_space :: "char \<Rightarrow> bool" where
  "is_ascii_space c =
     (c \<in> set [CHR '' '', CHR 0x09, CHR 0x0A, CHR 0x0B, CHR 0x0C, CHR 0x0D])"

definition is_unicode_space :: "char \<Rightarrow> bool" where
  "is_unicode_space c =
     (c \<in> set [CHR 0x09, CHR 0x0A, CHR 0x0B, CHR 0x0C, CHR 0x0D, CHR 0x1C, CHR 0x1D,
                 CHR 0x1E, CHR 0x1F, CHR '' '', CHR 0x85, CHR 0xA0])"

fun transform :: "string \<Rightarrow> string" where
  "transform [] = []"
| "transform (c # s) =
     (if (of_char c :: nat) < 127 then c # transform s
      else if is_unicode_space c then CHR '' '' # transform s
      else [CHR ''?''])"

definition to_ascii :: "string \<Rightarrow> string" where
  "to_ascii s = (if list_all (\<lambda>c. (of_char c :: nat) < 128) s then s else transform s)"

definition strip :: "string \<Rightarrow> string" where
  "strip s = rev (dropWhile is_ascii_space (rev (dropWhile is_ascii_space s)))"

definition is_digit :: "char \<Rightarrow> bool" where
  "is_digit c = (48 \<le> (of_char c :: nat) \<and> (of_char c :: nat) \<le> 57)"

fun digitpart :: "string \<Rightarrow> bool" where
  "digitpart [] = False"
| "digitpart [c] = is_digit c"
| "digitpart (c # d # s) =
     (is_digit c \<and> (if d = CHR ''_'' then digitpart s else digitpart (d # s)))"

definition digits_value :: "string \<Rightarrow> nat" where
  "digits_value s = foldl (\<lambda>a c. 10 * a + (of_char c - 48)) 0 (filter is_digit s)"

definition lower :: "char \<Rightarrow> char" where
  "lower c = (if 65 \<le> (of_char c :: nat) \<and> (of_char c :: nat) \<le> 90
              then char_of ((of_char c :: nat) + 32) else c)"

definition is_sign :: "char \<Rightarrow> bool" where
  "is_sign c = (c = CHR ''+'' \<or> c = CHR ''-'')"

definition unsigned :: "string \<Rightarrow> string" where
  "unsigned s = (case s of [] \<Rightarrow> [] | c # t \<Rightarrow> if is_sign c then t else s)"

definition negative :: "string \<Rightarrow> bool" where
  "negative s = (case s of [] \<Rightarrow> False | c # t \<Rightarrow> c = CHR ''-'')"

definition is_exp_mark :: "char \<Rightarrow> bool" where
  "is_exp_mark c = (c = CHR ''e'' \<or> c = CHR ''E'')"

text \<open>The number before the exponent: its value, when it is well formed.\<close>

definition number_value :: "string \<Rightarrow> real option" where
  "number_value s =
     (let ip = takeWhile (\<lambda>c. c \<noteq> CHR ''.'') s;
          rest = dropWhile (\<lambda>c. c \<noteq> CHR ''.'') s
      in if rest = [] then
           (if digitpart ip then Some (real (digits_value ip)) else None)
         else
           (let fp = tl rest
            in if fp = [] then
                 (if digitpart ip then Some (real (digits_value ip)) else None)
               else if digitpart fp \<and> (ip = [] \<or> digitpart ip) then
                 Some (real (digits_value ip)
                       + real (digits_value fp) / 10 ^ length (filter is_digit fp))
               else None))"

text \<open>The exponent after its mark: its value as a power of ten.\<close>

definition exponent_value :: "string \<Rightarrow> real option" where
  "exponent_value s =
     (if digitpart (unsigned s) then
        Some (if negative s then 1 / 10 ^ digits_value (unsigned s)
              else 10 ^ digits_value (unsigned s))
      else None)"

definition floatnumber :: "string \<Rightarrow> real option" where
  "floatnumber s =
     (let m = takeWhile (\<lambda>c. \<not> is_exp_mark c) s;
          rest = dropWhile (\<lambda>c. \<not> is_exp_mark c) s
      in case number_value m of
           None \<Rightarrow> None
         | Some v \<Rightarrow>
             if rest = [] then Some v
             else (case exponent_value (tl rest) of
                     None \<Rightarrow> None
                   | Some p \<Rightarrow> Some (v * p)))"

definition py_float :: "string \<Rightarrow> pyfloat option" where
  "py_float s =
     (let t = strip (to_ascii s);
          u = unsigned t
      in if map lower u \<in> set [''inf'', ''infinity'', ''nan''] then Some Inf_or_nan
         else (case floatnumber u of
                 None \<Rightarrow> None
               | Some v \<Rightarrow> Some (Finite (if negative t then - v else v))))"

text \<open>\<open>str.split\<close> with a separator: one field more than there are separators.\<close>

fun split :: "char \<Rightarrow> string \<Rightarrow> string list" where
  "split sep [] = [[]]"
| "split sep (c # s) =
     (if c = sep then [] # split sep s
      else (let fields = split sep s in (c # hd fields) # tl fields))"

text \<open>
  \<open>parse_msg\<close>, on the \<open>data\<close> of the message, with the builtin \<open>float\<close> as its first
  argument. The three numbers are converted in the order of the source, and the first
  conversion that fails raises.
\<close>

definition parse_msg ::
  "(string \<Rightarrow> pyfloat option) \<Rightarrow> selector \<Rightarrow> string \<Rightarrow> world \<Rightarrow> (exn + unit) \<times> world" where
  "parse_msg float self msg_data w =
     (let msg_components = split CHR '':'' msg_data
      in if length msg_components = 7 then
           (let w1 = log_entry (Info_processing msg_data) w;
                telescope_name = msg_components ! 0;
                subarray = msg_components ! 1;
                pktstart_ts = msg_components ! 2;
                target_name = msg_components ! 3
            in case float (msg_components ! 4) of
                 None \<Rightarrow> (Inl ValueError, w1)
               | Some ra_deg \<Rightarrow>
            (case float (msg_components ! 5) of
                 None \<Rightarrow> (Inl ValueError, w1)
               | Some dec_deg \<Rightarrow>
            (case float (msg_components ! 6) of
                 None \<Rightarrow> (Inl ValueError, w1)
               | Some fecenter \<Rightarrow>
                   (let obsid = telescope_name @ '':'' @ subarray @ '':'' @ pktstart_ts
                    in case (ra_deg, dec_deg, fecenter) of
                         (Finite ra, Finite dec, Finite fe) \<Rightarrow>
                           calculate_targets self subarray target_name ra dec fe obsid w1
                       | _ \<Rightarrow> (Inl Non_finite, w1)))))
         else (Inr (), log_entry (Warning_unrecognised msg_data) w))"

text \<open>
  \<open>start\<close>: the loop \<open>for msg in ps.listen(): self.parse_msg(msg)\<close> over the messages
  that arrive, in their order. \<open>ps.listen()\<close> never ends by itself: a result \<open>Inr ()\<close>
  is the listener waiting for the next message after the ones given, and \<open>Inl e\<close> is
  the exception \<open>e\<close> leaving \<open>start\<close>, after which no message is received any more.
\<close>

fun listen_loop ::
  "(string \<Rightarrow> pyfloat option) \<Rightarrow> selector \<Rightarrow> string list \<Rightarrow> world
     \<Rightarrow> (exn + unit) \<times> world" where
  "listen_loop float self [] w = (Inr (), w)"
| "listen_loop float self (msg # msgs) w =
     (case parse_msg float self msg w of
        (Inl e, w') \<Rightarrow> (Inl e, w')
      | (Inr u, w') \<Rightarrow> listen_loop float self msgs w')"

definition start ::
  "(string \<Rightarrow> pyfloat option) \<Rightarrow> selector \<Rightarrow> string list \<Rightarrow> world
     \<Rightarrow> (exn + unit) \<times> world" where
  "start float self msgs w =
     listen_loop float self msgs
       (log_entry (Info_listening (pointing_channel self)) (log_entry Info_starting w))"

text \<open>A world in which nothing has happened yet, an engine that answers from a table, and
  an engine whose queries fail.\<close>

definition fresh_world :: world where
  "fresh_world = \<lparr>redis = Map.empty, published = [], queries = [], logged = []\<rparr>"

definition table_engine :: "target_row list \<Rightarrow> sql_query \<Rightarrow> exn + target_row list" where
  "table_engine tbl q = Inr (run_query tbl q)"

definition failing_engine :: "sql_query \<Rightarrow> exn + target_row list" where
  "failing_engine q = Inl Catalog_error"

definition selector_with :: "(sql_query \<Rightarrow> exn + target_row list) \<Rightarrow> selector" where
  "selector_with e =
     \<lparr>pointing_channel = ''pointings'', targets_channel = ''targets'', engine = e\<rparr>"

section \<open>Auxiliary facts\<close>

lemma query_bounds_equator:
  assumes "0 \<le> r" and "r < pi / 2" and "ra < r"
  shows "query_bounds ra 0 r = [(2 * pi - (ra - r), 0, - r, r), (0, ra + r, - r, r)]"
proof -
  have off: "arcsin (sin r / cos 0) = r"
    using assms by (simp add: arcsin_sin)
  show ?thesis
    unfolding query_bounds_def Let_def off using assms by simp
qed

lemma cos_separation_bounds:
  fixes a b c :: real
  shows "- 1 \<le> sin a * sin b + cos a * cos b * cos c
         \<and> sin a * sin b + cos a * cos b * cos c \<le> 1"
proof -
  define k where "k = cos c"
  define X where "X = (1 + k) / 2 * cos (a - b)"
  define Y where "Y = (1 - k) / 2 * (- cos (a + b))"
  have k: "- 1 \<le> k" "k \<le> 1" by (simp_all add: k_def)
  have eq: "sin a * sin b + cos a * cos b * cos c = X + Y"
    by (simp add: X_def Y_def k_def cos_diff cos_add field_simps)
  have p: "0 \<le> (1 + k) / 2" "0 \<le> (1 - k) / 2" using k by simp_all
  have "(1 + k) / 2 * cos (a - b) \<le> (1 + k) / 2 * 1"
    by (rule mult_left_mono) (use p in simp_all)
  then have u1: "X \<le> (1 + k) / 2" by (simp add: X_def)
  have "(1 - k) / 2 * (- cos (a + b)) \<le> (1 - k) / 2 * 1"
    by (rule mult_left_mono) (use p in simp_all)
  then have u2: "Y \<le> (1 - k) / 2" by (simp add: Y_def)
  have "(1 + k) / 2 * (- 1) \<le> (1 + k) / 2 * cos (a - b)"
    by (rule mult_left_mono) (use p in simp_all)
  then have l1: "- ((1 + k) / 2) \<le> X" by (simp add: X_def)
  have "(1 - k) / 2 * (- 1) \<le> (1 - k) / 2 * (- cos (a + b))"
    by (rule mult_left_mono) (use p in simp_all)
  then have l2: "- ((1 - k) / 2) \<le> Y" by (simp add: Y_def)
  have "- 1 \<le> X + Y" using l1 l2 by (simp add: field_simps)
  moreover have "X + Y \<le> 1" using u1 u2 by (simp add: field_simps)
  ultimately show ?thesis unfolding eq by simp
qed

text \<open>With the same declination in both places, as \<open>calculate_targets\<close> formats it, the
  argument of \<open>ACOS\<close> is a cosine of an angular separation and never \<open>NULL\<close>.\<close>

lemma separation_where_arccos:
  "separation_where a a c d =
     (\<lambda>t. arccos (sin a * sin (radians (row_decl t))
                  + cos a * cos (radians (row_decl t)) * cos (c - radians (row_ra t))) < d)"
proof (rule ext)
  fix t
  have e: "sin (radians (row_decl t)) * sin a
           + cos (radians (row_decl t)) * cos a * cos (c - radians (row_ra t))
         = sin a * sin (radians (row_decl t))
           + cos a * cos (radians (row_decl t)) * cos (c - radians (row_ra t))"
    by (simp add: mult.commute)
  show "separation_where a a c d t =
     (arccos (sin a * sin (radians (row_decl t))
              + cos a * cos (radians (row_decl t)) * cos (c - radians (row_ra t))) < d)"
    unfolding separation_where_def acos_less_def e
    using cos_separation_bounds [of a "radians (row_decl t)" "c - radians (row_ra t)"]
    by simp
qed

lemma run_query_Nil: "run_query [] q = []"
  by (induction q) simp_all

lemma format_loop_append: "format_loop df output_list = output_list @ map source_dict df"
  by (induction df arbitrary: output_list) simp_all

lemma parse_msg_pointing:
  assumes "split CHR '':'' msg_data =
             [telescope_name, subarray, pktstart_ts, target_name, ra_s, dec_s, fe_s]"
    and "float ra_s = Some (Finite ra_deg)"
    and "float dec_s = Some (Finite dec_deg)"
    and "float fe_s = Some (Finite fecenter)"
  shows "parse_msg float self msg_data w =
           calculate_targets self subarray target_name ra_deg dec_deg fecenter
             (telescope_name @ '':'' @ subarray @ '':'' @ pktstart_ts)
             (log_entry (Info_processing msg_data) w)"
  unfolding parse_msg_def assms(1) Let_def by (simp add: assms(2-4))

lemma calculate_targets_raises:
  assumes "fecenter \<noteq> 0"
    and "engine self (targets_query (box_query (query_bounds (deg2rad ra_deg) (deg2rad dec_deg)
           (beam_radius_of fecenter))) ra_deg dec_deg (beam_radius_of fecenter)) = Inl e"
  shows "calculate_targets self subarray target_name ra_deg dec_deg fecenter obsid w =
           (Inl e,
            w\<lparr>queries := queries w @
                 [targets_query (box_query (query_bounds (deg2rad ra_deg) (deg2rad dec_deg)
                    (beam_radius_of fecenter))) ra_deg dec_deg (beam_radius_of fecenter)],
              logged := logged w @ [Info_calculating target_name ra_deg dec_deg,
                                    Info_applying_bounding_box]\<rparr>)"
  using assms by (simp add: calculate_targets_def Let_def log_entry_def)

lemma calculate_targets_returns:
  assumes "fecenter \<noteq> 0"
    and "engine self (targets_query (box_query (query_bounds (deg2rad ra_deg) (deg2rad dec_deg)
           (beam_radius_of fecenter))) ra_deg dec_deg (beam_radius_of fecenter)) = Inr target_list"
  shows "calculate_targets self subarray target_name ra_deg dec_deg fecenter obsid w =
           (Inr (),
            w\<lparr>redis := (redis w)(''targets:'' @ obsid \<mapsto>
                 format_targets target_list
                   (JObject [(''source_id'', JString target_name), (''ra'', JNumber ra_deg),
                             (''dec'', JNumber dec_deg)])),
              published := published w @ [(targets_channel self, ''targets:'' @ obsid)],
              queries := queries w @
                 [targets_query (box_query (query_bounds (deg2rad ra_deg) (deg2rad dec_deg)
                    (beam_radius_of fecenter))) ra_deg dec_deg (beam_radius_of fecenter)],
              logged := logged w @ [Info_calculating target_name ra_deg dec_deg,
                                    Info_applying_bounding_box,
                                    Info_retrieved (length target_list)]\<rparr>)"
  using assms by (simp add: calculate_targets_def Let_def log_entry_def)

text \<open>The messages and numbers of the examples below.\<close>

lemma split_six_fields:
  "split CHR '':'' ''MeerKAT:array1:169000000:3C286:202.78:30.51'' =
     [''MeerKAT'', ''array1'', ''169000000'', ''3C286'', ''202.78'', ''30.51'']"
  by simp

lemma split_eight_fields:
  "split CHR '':'' ''MeerKAT:array1:169000000:3C286:202.78:30.51:1420.0:x'' =
     [''MeerKAT'', ''array1'', ''169000000'', ''3C286'', ''202.78'', ''30.51'', ''1420.0'', ''x'']"
  by simp

lemma split_unparseable:
  "split CHR '':'' ''MeerKAT:array1:169000000:3C286:abc:30.51:1420.0'' =
     [''MeerKAT'', ''array1'', ''169000000'', ''3C286'', ''abc'', ''30.51'', ''1420.0'']"
  by simp

lemma split_pointing:
  "split CHR '':'' ''MeerKAT:array1:169000001:3C286:202.78:30.51:1420.0'' =
     [''MeerKAT'', ''array1'', ''169000001'', ''3C286'', ''202.78'', ''30.51'', ''1420.0'']"
  by simp

lemma split_next_pointing:
  "split CHR '':'' ''MeerKAT:array1:169000002:J0408:62.08:-65.75:1420.0'' =
     [''MeerKAT'', ''array1'', ''169000002'', ''J0408'', ''62.08'', ''-65.75'', ''1420.0'']"
  by simp

lemma split_near_zero:
  "split CHR '':'' ''MeerKAT:array1:169000000:3C286:1:0:100'' =
     [''MeerKAT'', ''array1'', ''169000000'', ''3C286'', ''1'', ''0'', ''100'']"
  by simp

lemma py_float_examples:
  "py_float ''abc'' = None"
  "py_float ''202.78'' = Some (Finite 202.78)"
  "py_float ''30.51'' = Some (Finite 30.51)"
  "py_float ''1420.0'' = Some (Finite 1420)"
  "py_float ''62.08'' = Some (Finite 62.08)"
  "py_float ''-65.75'' = Some (Finite (- 65.75))"
  "py_float ''1'' = Some (Finite 1)"
  "py_float ''0'' = Some (Finite 0)"
  "py_float ''100'' = Some (Finite 100)"
  by code_simp+

text \<open>White space around a number: code point 28 is white space of Unicode but not of C
  and is kept in an ASCII text; 160 and 133 become blanks and are dropped.\<close>

lemma py_float_white_space:
  "py_float [CHR 0x1C, CHR ''1'', CHR ''.'', CHR ''5''] = None"
  "py_float [CHR 0xA0, CHR ''1'', CHR ''.'', CHR ''5''] = Some (Finite 1.5)"
  "py_float [CHR ''1'', CHR ''.'', CHR ''5'', CHR 0x85] = Some (Finite 1.5)"
  "py_float [CHR 0x0B, CHR ''1'', CHR ''.'', CHR ''5'', CHR 0x0C] = Some (Finite 1.5)"
  "py_float ''inf'' = Some Inf_or_nan"
  by code_simp+

lemma beam_radius_of_100: "beam_radius_of 100 = 149896229 / 2500000000"
  by (simp add: beam_radius_of_def speed_of_light_def)

text \<open>A catalog row at right ascension 359 degrees on the equator lies two degrees from
  the pointing (1, 0), inside the beam of 100 MHz (about 3.4 degrees).\<close>

lemma separation_of_star:
  "separation_where (deg2rad 0) (deg2rad 0) (deg2rad 1) (beam_radius_of 100)
     (Target_row ''star'' 359 0 1)"
proof -
  have "deg2rad 1 - radians 359 = - (2 * pi - pi / 90)"
    by (simp add: deg2rad_def radians_def)
  then have c: "cos (deg2rad 1 - radians 359) = cos (pi / 90)"
    by (simp only: cos_minus cos_2pi_minus)
  have arg: "sin (radians 0) * sin (deg2rad 0)
             + cos (radians 0) * cos (deg2rad 0) * cos (deg2rad 1 - radians 359) = cos (pi / 90)"
    unfolding c by (simp add: deg2rad_def radians_def)
  have a: "arccos (cos (pi / 90)) = pi / 90"
    by (rule arccos_cos) (use pi_gt_zero in simp_all)
  have lt: "pi / 90 < beam_radius_of 100"
    unfolding beam_radius_of_100 using pi_less_4 by simp
  show ?thesis
    unfolding separation_where_def acos_less_def target_row.sel arg a
    using lt by simp
qed

lemma box_query_of_star:
  "run_query [Target_row ''star'' 359 0 1]
     (box_query (query_bounds (deg2rad 1) (deg2rad 0) (beam_radius_of 100))) = []"
proof -
  have r: "0 \<le> beam_radius_of 100" "beam_radius_of 100 < pi / 2"
    "deg2rad 1 < beam_radius_of 100"
    unfolding beam_radius_of_100 deg2rad_def using pi_ge_two pi_less_4 by simp_all
  have b: "query_bounds (deg2rad 1) (deg2rad 0) (beam_radius_of 100) =
      [(2 * pi - (deg2rad 1 - beam_radius_of 100), 0, - beam_radius_of 100, beam_radius_of 100),
       (0, deg2rad 1 + beam_radius_of 100, - beam_radius_of 100, beam_radius_of 100)]"
    using query_bounds_equator [OF r] by (simp add: deg2rad_def)
  have "beam_radius_of 100 * 180 < 358 * pi"
    unfolding beam_radius_of_100 using pi_ge_two by simp
  then have "rad2deg (deg2rad 1 + beam_radius_of 100) < 359"
    using pi_gt_zero by (simp add: rad2deg_def deg2rad_def field_simps)
  then have "\<not> two_boxes_where (rad2deg (2 * pi - (deg2rad 1 - beam_radius_of 100)))
      (rad2deg 0) (rad2deg 0) (rad2deg (deg2rad 1 + beam_radius_of 100))
      (rad2deg (- beam_radius_of 100)) (rad2deg (beam_radius_of 100))
      (Target_row ''star'' 359 0 1)"
    by (simp add: two_boxes_where_def rad2deg_def)
  then show ?thesis
    unfolding b by (simp add: box_query_def rad2deg_box_def)
qed

section \<open>Properties of the bounding boxes\<close>

text \<open>
  C6. Away from the poles (\<open>dec + r < pi/2\<close> and \<open>dec - r > -pi/2\<close>) and from the
  line \<open>ra = 0\<close> (\<open>ra - off \<ge> 0\<close> and \<open>ra + off \<le> 2 pi\<close>, where
  \<open>off = arcsin (sin r / cos dec)\<close>), \<open>query_bounds\<close> returns exactly one box, namely
  \<open>[ra - off, ra + off, dec - r, dec + r]\<close>.
\<close>

theorem query_bounds_single_box:
  assumes "r < pi / 2" and "dec + r < pi / 2" and "dec - r > - pi / 2"
    and "ra - arcsin (sin r / cos dec) \<ge> 0"
    and "ra + arcsin (sin r / cos dec) \<le> 2 * pi"
  shows "query_bounds ra dec r =
           [(ra - arcsin (sin r / cos dec), ra + arcsin (sin r / cos dec), dec - r, dec + r)]"
  using assms by (simp add: query_bounds_def Let_def)

text \<open>The pointing at \<open>ra = pi\<close> on the equator with a radius of \<open>pi/4\<close>, where the
  offset is \<open>pi/4\<close> as well.\<close>

theorem query_bounds_single_box_witness:
  "query_bounds pi 0 (pi / 4) = [(pi - pi / 4, pi + pi / 4, 0 - pi / 4, 0 + pi / 4)]"
proof -
  have off: "arcsin (sin (pi / 4) / cos 0) = pi / 4"
    by (simp add: arcsin_sin)
  have h1: "pi / 4 < pi / 2" and h2: "0 + pi / 4 < pi / 2" and h3: "0 - pi / 4 > - pi / 2"
    by simp_all
  have h4: "pi - arcsin (sin (pi / 4) / cos 0) \<ge> 0"
    and h5: "pi + arcsin (sin (pi / 4) / cos 0) \<le> 2 * pi"
    unfolding off by simp_all
  show ?thesis
    using query_bounds_single_box [OF h1 h2 h3 h4 h5] unfolding off .
qed

text \<open>
  C1. Where the box reaches below \<open>ra = 0\<close>, two boxes are returned, and the second is
  \<open>[0, ra_max]\<close>; the first is meant to be \<open>[2 pi + ra_min, 2 pi]\<close>. The source
  computes \<open>2 pi - ra_min\<close> for its lower end and \<open>0\<close> for its upper end. For
  \<open>ra\<close> = 1 degree, \<open>dec\<close> = 0 and \<open>r\<close> = 5 degrees the first box runs from 364 degrees
  to 0 degrees, where \<open>[356, 360]\<close> is meant, and holds no right ascension at all.
\<close>

theorem query_bounds_below_zero_first_box:
  "query_bounds (deg2rad 1) (deg2rad 0) (deg2rad 5) =
     [(2 * pi + pi / 45, 0, - (pi / 36), pi / 36), (0, pi / 30, - (pi / 36), pi / 36)]
   \<and> map rad2deg_box (query_bounds (deg2rad 1) (deg2rad 0) (deg2rad 5)) =
     [(364, 0, - 5, 5), (0, 6, - 5, 5)]
   \<and> query_bounds (deg2rad 1) (deg2rad 0) (deg2rad 5) \<noteq>
     [(2 * pi + (deg2rad 1 - deg2rad 5), 2 * pi, deg2rad 0 - deg2rad 5, deg2rad 0 + deg2rad 5),
      (0, deg2rad 1 + deg2rad 5, deg2rad 0 - deg2rad 5, deg2rad 0 + deg2rad 5)]"
proof -
  have b: "query_bounds (pi / 180) 0 (pi / 36) =
     [(2 * pi - (pi / 180 - pi / 36), 0, - (pi / 36), pi / 36),
      (0, pi / 180 + pi / 36, - (pi / 36), pi / 36)]"
    by (rule query_bounds_equator) (use pi_gt_zero in simp_all)
  have e1: "2 * pi - (pi / 180 - pi / 36) = 2 * pi + pi / 45" by simp
  have e2: "pi / 180 + pi / 36 = pi / 30" by simp
  have d: "deg2rad 1 = pi / 180" "deg2rad 0 = 0" "deg2rad 5 = pi / 36"
    by (simp_all add: deg2rad_def)
  have r: "rad2deg (2 * pi + pi / 45) = 364" "rad2deg 0 = 0" "rad2deg (pi / 36) = 5"
    "rad2deg (- (pi / 36)) = - 5" "rad2deg (pi / 30) = 6"
    by (simp_all add: rad2deg_def)
  have radians: "query_bounds (deg2rad 1) (deg2rad 0) (deg2rad 5) =
     [(2 * pi + pi / 45, 0, - (pi / 36), pi / 36), (0, pi / 30, - (pi / 36), pi / 36)]"
    unfolding d b e1 e2 ..
  have degrees: "map rad2deg_box (query_bounds (deg2rad 1) (deg2rad 0) (deg2rad 5)) =
     [(364, 0, - 5, 5), (0, 6, - 5, 5)]"
    unfolding radians list.map rad2deg_box_def prod.case r by simp
  have differs: "query_bounds (deg2rad 1) (deg2rad 0) (deg2rad 5) \<noteq>
     [(2 * pi + (deg2rad 1 - deg2rad 5), 2 * pi, deg2rad 0 - deg2rad 5, deg2rad 0 + deg2rad 5),
      (0, deg2rad 1 + deg2rad 5, deg2rad 0 - deg2rad 5, deg2rad 0 + deg2rad 5)]"
    unfolding radians by simp
  from radians degrees differs show ?thesis by simp
qed

text \<open>
  C5, as the specification states it: in the south-pole case the single box has
  \<open>dec_min = dec + r\<close> and \<open>dec_max = pi/2\<close>. At \<open>dec = -pi/3\<close>, \<open>r = pi/4\<close> the source
  returns \<open>dec_min = pi/2\<close> and \<open>dec_max = dec + r = -pi/12\<close>.
\<close>

theorem query_bounds_south_pole_counterexample:
  "0 < pi / 4 \<and> pi / 4 < pi / 2 \<and> - (pi / 3) - pi / 4 \<le> - pi / 2
   \<and> - (pi / 3) + pi / 4 < pi / 2
   \<and> query_bounds 0 (- (pi / 3)) (pi / 4) = [(0, 2 * pi, pi / 2, - (pi / 12))]
   \<and> query_bounds 0 (- (pi / 3)) (pi / 4) \<noteq> [(0, 2 * pi, - (pi / 3) + pi / 4, pi / 2)]"
proof -
  have np: "\<not> pi \<le> 0" using pi_gt_zero by linarith
  have b: "query_bounds 0 (- (pi / 3)) (pi / 4) = [(0, 2 * pi, pi / 2, - (pi / 12))]"
    unfolding query_bounds_def Let_def using np by (simp add: field_simps)
  show ?thesis
    unfolding b using np by simp
qed

text \<open>
  C5, amended. For \<open>0 < r < pi/2\<close>, \<open>dec - r \<le> -pi/2\<close> and \<open>dec + r < pi/2\<close>,
  \<open>query_bounds\<close> returns exactly one box; it spans the full range of right ascension,
  \<open>ra_min = 0\<close> and \<open>ra_max = 2 pi\<close>, and its upper declination is \<open>dec_max = dec + r\<close>.
  (Nothing is said of \<open>dec_min\<close>.)
\<close>

theorem query_bounds_south_pole:
  assumes "0 < r" and "r < pi / 2" and "dec - r \<le> - pi / 2" and "dec + r < pi / 2"
  shows "map (\<lambda>(ra_min, ra_max, dec_min, dec_max). (ra_min, ra_max, dec_max))
           (query_bounds ra dec r) = [(0, 2 * pi, dec + r)]"
  using assms by (simp add: query_bounds_def Let_def)

theorem query_bounds_south_pole_witness:
  "map (\<lambda>(ra_min, ra_max, dec_min, dec_max). (ra_min, ra_max, dec_max))
     (query_bounds 0 (- (pi / 3)) (pi / 4)) = [(0, 2 * pi, - (pi / 3) + pi / 4)]"
proof -
  have h1: "0 < pi / 4" and h2: "pi / 4 < pi / 2" by simp_all
  have h3: "- (pi / 3) - pi / 4 \<le> - pi / 2" and h4: "- (pi / 3) + pi / 4 < pi / 2"
    using pi_gt_zero by linarith+
  show ?thesis
    by (rule query_bounds_south_pole [OF h1 h2 h3 h4])
qed

text \<open>
  C10. For every \<open>ra\<close>, \<open>dec\<close> and \<open>r\<close>, \<open>query_bounds\<close> returns one box or two, never
  none: the query that \<open>calculate_targets\<close> builds from them is never the one without a
  \<open>WHERE\<close> clause.
\<close>

theorem query_bounds_one_or_two_boxes:
  "(length (query_bounds ra dec r) = 1 \<or> length (query_bounds ra dec r) = 2)
   \<and> box_query (query_bounds ra dec r) \<noteq> Select_target_list"
  by (simp add: query_bounds_def box_query_def rad2deg_box_def Let_def split: prod.splits)

text \<open>
  C2. Every point closer than \<open>r\<close> to the pointing is meant to lie in one of the boxes,
  so that the rectangular filter loses no target of the field of view. For the pointing
  at 1 degree of right ascension on the equator, observed at 100 MHz, the catalog row at
  359 degrees passes the separation filter on the whole table, yet the filter of the
  boxes of \<open>query_bounds\<close> drops it: the query of \<open>calculate_targets\<close> returns no row, and
  the list stored for the message holds the pointing alone.
\<close>

theorem box_filter_loses_target_in_beam:
  "run_query [Target_row ''star'' 359 0 1]
     (targets_query Select_target_list 1 0 (beam_radius_of 100)) =
     [Target_row ''star'' 359 0 1]
   \<and> run_query [Target_row ''star'' 359 0 1]
     (targets_query (box_query (query_bounds (deg2rad 1) (deg2rad 0) (beam_radius_of 100)))
        1 0 (beam_radius_of 100)) = []
   \<and> redis (snd (parse_msg py_float (selector_with (table_engine [Target_row ''star'' 359 0 1]))
         ''MeerKAT:array1:169000000:3C286:1:0:100'' fresh_world))
       ''targets:MeerKAT:array1:169000000'' =
     Some (JArray [JObject [(''source_id'', JString ''3C286''), (''ra'', JNumber 1),
                            (''dec'', JNumber 0)]])"
proof -
  have whole: "run_query [Target_row ''star'' 359 0 1]
     (targets_query Select_target_list 1 0 (beam_radius_of 100)) =
     [Target_row ''star'' 359 0 1]"
    by (simp add: targets_query_def separation_of_star)
  have boxed: "run_query [Target_row ''star'' 359 0 1]
     (targets_query (box_query (query_bounds (deg2rad 1) (deg2rad 0) (beam_radius_of 100)))
        1 0 (beam_radius_of 100)) = []"
    by (simp add: targets_query_def box_query_of_star)
  have stored: "redis (snd (parse_msg py_float (selector_with (table_engine [Target_row ''star'' 359 0 1]))
         ''MeerKAT:array1:169000000:3C286:1:0:100'' fresh_world))
       ''targets:MeerKAT:array1:169000000'' =
     Some (JArray [JObject [(''source_id'', JString ''3C286''), (''ra'', JNumber 1),
                            (''dec'', JNumber 0)]])"
    unfolding parse_msg_pointing [OF split_near_zero py_float_examples(7,8,9)]
    by (simp add: calculate_targets_def Let_def table_engine_def selector_with_def
        targets_query_def box_query_of_star format_targets_def log_entry_def fresh_world_def)
  from whole boxed stored show ?thesis by simp
qed

section \<open>Properties of the catalog query\<close>

text \<open>
  C9. For every pointing with a centre frequency other than zero, \<open>calculate_targets\<close>
  sends one query, and its result is the engine's answer to it. The query is the
  separation clause
  \<open>ACOS(SIN(RADIANS(decl))*SIN(dec_c)+COS(RADIANS(decl))*COS(dec_c)*COS(ra_c-RADIANS(ra))) < beam_radius\<close>
  over the box query as its derived table, built from the one or two boxes of
  \<open>query_bounds\<close>. Whatever the bounds, the rows that the separation clause is applied
  to are the rows of the box query, and the result is those of them that pass it. With
  one box these rows are the rows of the table inside the box, with more than one the
  rows inside the first two boxes (right ascension in either, declination in the
  first): the separation clause is never applied to a row outside the boxes. With no
  box the box query is the plain selection from \<open>target_list\<close>, and the query returns the
  rows of the whole table that pass the separation clause.
\<close>

theorem calculate_targets_two_stage_query:
  assumes "fecenter \<noteq> 0"
  shows
    "queries (snd (calculate_targets self subarray target_name ra_deg dec_deg fecenter obsid w)) =
       queries w @
         [Select_separation
            (box_query (query_bounds (deg2rad ra_deg) (deg2rad dec_deg) (beam_radius_of fecenter)))
            (deg2rad dec_deg) (deg2rad dec_deg) (deg2rad ra_deg) (beam_radius_of fecenter)]
     \<and> fst (calculate_targets self subarray target_name ra_deg dec_deg fecenter obsid w) =
       (case engine self
               (Select_separation
                  (box_query (query_bounds (deg2rad ra_deg) (deg2rad dec_deg)
                     (beam_radius_of fecenter)))
                  (deg2rad dec_deg) (deg2rad dec_deg) (deg2rad ra_deg) (beam_radius_of fecenter)) of
          Inl e \<Rightarrow> Inl e
        | Inr target_list \<Rightarrow> Inr ())
     \<and> (length (query_bounds (deg2rad ra_deg) (deg2rad dec_deg) (beam_radius_of fecenter)) = 1
         \<or> length (query_bounds (deg2rad ra_deg) (deg2rad dec_deg) (beam_radius_of fecenter)) = 2)
     \<and> separation_inputs tbl
         (Select_separation (box_query bounds)
            (deg2rad dec_deg) (deg2rad dec_deg) (deg2rad ra_deg) beam_radius) =
       run_query tbl (box_query bounds)
     \<and> run_query tbl
         (Select_separation (box_query bounds)
            (deg2rad dec_deg) (deg2rad dec_deg) (deg2rad ra_deg) beam_radius) =
       filter (separation_where (deg2rad dec_deg) (deg2rad dec_deg) (deg2rad ra_deg) beam_radius)
         (run_query tbl (box_query bounds))
     \<and> (length bounds = 1 \<longrightarrow>
          box_query bounds =
            (case rad2deg_box (bounds ! 0) of
               (ra_min, ra_max, dec_min, dec_max) \<Rightarrow>
                 Select_one_box ra_min ra_max dec_min dec_max)
          \<and> run_query tbl (box_query bounds) =
            filter (\<lambda>t. case rad2deg_box (bounds ! 0) of
                      (ra_min, ra_max, dec_min, dec_max) \<Rightarrow>
                        (ra_min < row_ra t \<and> row_ra t < ra_max)
                        \<and> (dec_min < row_decl t \<and> row_decl t < dec_max)) tbl)
     \<and> (1 < length bounds \<longrightarrow>
          box_query bounds =
            (case (rad2deg_box (bounds ! 0), rad2deg_box (bounds ! 1)) of
               ((ra_min_0, ra_max_0, dec_min, dec_max), (ra_min_1, ra_max_1, _, _)) \<Rightarrow>
                 Select_two_boxes ra_min_0 ra_max_0 ra_min_1 ra_max_1 dec_min dec_max)
          \<and> run_query tbl (box_query bounds) =
            filter (\<lambda>t. case (rad2deg_box (bounds ! 0), rad2deg_box (bounds ! 1)) of
                      ((ra_min_0, ra_max_0, dec_min, dec_max), (ra_min_1, ra_max_1, _, _)) \<Rightarrow>
                        ((ra_min_0 < row_ra t \<and> row_ra t < ra_max_0)
                         \<or> (ra_min_1 < row_ra t \<and> row_ra t < ra_max_1))
                        \<and> (dec_min < row_decl t \<and> row_decl t < dec_max)) tbl)
     \<and> (length bounds = 0 \<longrightarrow>
          box_query bounds = Select_target_list
          \<and> run_query tbl
              (Select_separation (box_query bounds)
                 (deg2rad dec_deg) (deg2rad dec_deg) (deg2rad ra_deg) beam_radius) =
            filter (separation_where (deg2rad dec_deg) (deg2rad dec_deg) (deg2rad ra_deg)
                      beam_radius) tbl)"
proof -
  have sent:
    "queries (snd (calculate_targets self subarray target_name ra_deg dec_deg fecenter obsid w)) =
       queries w @
         [Select_separation
            (box_query (query_bounds (deg2rad ra_deg) (deg2rad dec_deg) (beam_radius_of fecenter)))
            (deg2rad dec_deg) (deg2rad dec_deg) (deg2rad ra_deg) (beam_radius_of fecenter)]"
    using assms
    by (simp add: calculate_targets_def Let_def log_entry_def targets_query_def
        split: sum.splits)
  have answer:
    "fst (calculate_targets self subarray target_name ra_deg dec_deg fecenter obsid w) =
       (case engine self
               (Select_separation
                  (box_query (query_bounds (deg2rad ra_deg) (deg2rad dec_deg)
                     (beam_radius_of fecenter)))
                  (deg2rad dec_deg) (deg2rad dec_deg) (deg2rad ra_deg) (beam_radius_of fecenter)) of
          Inl e \<Rightarrow> Inl e
        | Inr target_list \<Rightarrow> Inr ())"
    using assms
    by (simp add: calculate_targets_def Let_def log_entry_def targets_query_def
        split: sum.splits)
  have boxes:
    "length (query_bounds (deg2rad ra_deg) (deg2rad dec_deg) (beam_radius_of fecenter)) = 1
     \<or> length (query_bounds (deg2rad ra_deg) (deg2rad dec_deg) (beam_radius_of fecenter)) = 2"
    by (simp add: query_bounds_def Let_def)
  have one: "length bounds = 1 \<longrightarrow>
          box_query bounds =
            (case rad2deg_box (bounds ! 0) of
               (ra_min, ra_max, dec_min, dec_max) \<Rightarrow>
                 Select_one_box ra_min ra_max dec_min dec_max)
          \<and> run_query tbl (box_query bounds) =
            filter (\<lambda>t. case rad2deg_box (bounds ! 0) of
                      (ra_min, ra_max, dec_min, dec_max) \<Rightarrow>
                        (ra_min < row_ra t \<and> row_ra t < ra_max)
                        \<and> (dec_min < row_decl t \<and> row_decl t < dec_max)) tbl"
    by (auto simp: box_query_def Let_def one_box_where_def split: prod.splits
        intro!: filter_cong)
  have two: "1 < length bounds \<longrightarrow>
          box_query bounds =
            (case (rad2deg_box (bounds ! 0), rad2deg_box (bounds ! 1)) of
               ((ra_min_0, ra_max_0, dec_min, dec_max), (ra_min_1, ra_max_1, _, _)) \<Rightarrow>
                 Select_two_boxes ra_min_0 ra_max_0 ra_min_1 ra_max_1 dec_min dec_max)
          \<and> run_query tbl (box_query bounds) =
            filter (\<lambda>t. case (rad2deg_box (bounds ! 0), rad2deg_box (bounds ! 1)) of
                      ((ra_min_0, ra_max_0, dec_min, dec_max), (ra_min_1, ra_max_1, _, _)) \<Rightarrow>
                        ((ra_min_0 < row_ra t \<and> row_ra t < ra_max_0)
                         \<or> (ra_min_1 < row_ra t \<and> row_ra t < ra_max_1))
                        \<and> (dec_min < row_decl t \<and> row_decl t < dec_max)) tbl"
    by (auto simp: box_query_def Let_def two_boxes_where_def split: prod.splits
        intro!: filter_cong)
  have none: "length bounds = 0 \<longrightarrow>
          box_query bounds = Select_target_list
          \<and> run_query tbl
              (Select_separation (box_query bounds)
                 (deg2rad dec_deg) (deg2rad dec_deg) (deg2rad ra_deg) beam_radius) =
            filter (separation_where (deg2rad dec_deg) (deg2rad dec_deg) (deg2rad ra_deg)
                      beam_radius) tbl"
    by (simp add: box_query_def)
  have inputs: "separation_inputs tbl
         (Select_separation (box_query bounds)
            (deg2rad dec_deg) (deg2rad dec_deg) (deg2rad ra_deg) beam_radius) =
       run_query tbl (box_query bounds)"
    by simp
  have result: "run_query tbl
         (Select_separation (box_query bounds)
            (deg2rad dec_deg) (deg2rad dec_deg) (deg2rad ra_deg) beam_radius) =
       filter (separation_where (deg2rad dec_deg) (deg2rad dec_deg) (deg2rad ra_deg) beam_radius)
         (run_query tbl (box_query bounds))"
    by simp
  show ?thesis
    by (intro conjI; fact sent answer boxes inputs result one two none)
qed

text \<open>The pointing at 1 degree on the equator at 100 MHz with the row at 359 degrees, which
  does not reach the separation clause; and a table of two rows on the equator, at 10
  and at 200 degrees, under one box, two boxes and none (the boxes are in radians).\<close>

theorem calculate_targets_two_stage_query_witness:
  "queries (snd (calculate_targets (selector_with (table_engine [Target_row ''star'' 359 0 1]))
       ''array1'' ''3C286'' 1 0 100 ''MeerKAT:array1:169000000'' fresh_world)) =
     [Select_separation (box_query (query_bounds (deg2rad 1) (deg2rad 0) (beam_radius_of 100)))
        (deg2rad 0) (deg2rad 0) (deg2rad 1) (beam_radius_of 100)]
   \<and> separation_inputs [Target_row ''star'' 359 0 1]
       (Select_separation (box_query (query_bounds (deg2rad 1) (deg2rad 0) (beam_radius_of 100)))
          (deg2rad 0) (deg2rad 0) (deg2rad 1) (beam_radius_of 100)) = []
   \<and> run_query [Target_row ''a'' 10 0 1, Target_row ''b'' 200 0 1] (box_query [(0, pi, - 1, 1)]) =
     [Target_row ''a'' 10 0 1]
   \<and> run_query [Target_row ''a'' 10 0 1, Target_row ''b'' 200 0 1]
       (box_query [(pi, 2 * pi, - 1, 1), (0, pi / 36, - 1, 1)]) = [Target_row ''b'' 200 0 1]
   \<and> box_query [] = Select_target_list"
proof -
  have d: "rad2deg 0 = 0" "rad2deg pi = 180" "rad2deg (2 * pi) = 360" "rad2deg (pi / 36) = 5"
    "rad2deg (- 1) < 0" "0 < rad2deg 1"
    by (simp_all add: rad2deg_def)
  have nonzero: "(100 :: real) \<noteq> 0" by simp
  have l1: "length [(0 :: real, pi, - 1 :: real, 1 :: real)] = 1" by simp
  have l2: "1 < length [(pi, 2 * pi, - 1 :: real, 1 :: real), (0, pi / 36, - 1, 1)]" by simp
  have l0: "length ([] :: box list) = 0" by simp
  note star = calculate_targets_two_stage_query [OF nonzero,
      where self = "selector_with (table_engine [Target_row ''star'' 359 0 1])"
        and subarray = "''array1''" and target_name = "''3C286''" and ra_deg = 1 and dec_deg = 0
        and obsid = "''MeerKAT:array1:169000000''" and w = fresh_world
        and tbl = "[Target_row ''star'' 359 0 1]"
        and bounds = "query_bounds (deg2rad 1) (deg2rad 0) (beam_radius_of 100)"
        and beam_radius = "beam_radius_of 100"]
  note tab = calculate_targets_two_stage_query [OF nonzero,
      where tbl = "[Target_row ''a'' 10 0 1, Target_row ''b'' 200 0 1]"]
  have sent: "queries (snd (calculate_targets
       (selector_with (table_engine [Target_row ''star'' 359 0 1]))
       ''array1'' ''3C286'' 1 0 100 ''MeerKAT:array1:169000000'' fresh_world)) =
     [Select_separation (box_query (query_bounds (deg2rad 1) (deg2rad 0) (beam_radius_of 100)))
        (deg2rad 0) (deg2rad 0) (deg2rad 1) (beam_radius_of 100)]"
    using star by (simp add: fresh_world_def)
  have inputs: "separation_inputs [Target_row ''star'' 359 0 1]
       (Select_separation (box_query (query_bounds (deg2rad 1) (deg2rad 0) (beam_radius_of 100)))
          (deg2rad 0) (deg2rad 0) (deg2rad 1) (beam_radius_of 100)) = []"
    using star box_query_of_star by simp
  have one: "run_query [Target_row ''a'' 10 0 1, Target_row ''b'' 200 0 1]
      (box_query [(0, pi, - 1, 1)]) = [Target_row ''a'' 10 0 1]"
    using tab [where bounds = "[(0, pi, - 1, 1)]"] l1
    unfolding rad2deg_box_def by (simp add: d one_box_where_def two_boxes_where_def)
  have two: "run_query [Target_row ''a'' 10 0 1, Target_row ''b'' 200 0 1]
       (box_query [(pi, 2 * pi, - 1, 1), (0, pi / 36, - 1, 1)]) = [Target_row ''b'' 200 0 1]"
    using tab [where bounds = "[(pi, 2 * pi, - 1, 1), (0, pi / 36, - 1, 1)]"] l2
    unfolding rad2deg_box_def by (simp add: d one_box_where_def two_boxes_where_def)
  have none: "box_query [] = Select_target_list"
    using tab [where bounds = "[]"] l0 by simp
  from sent inputs one two none show ?thesis by simp
qed

section \<open>Properties of the target list\<close>

text \<open>
  C8. For every list of rows and every pointing dictionary, \<open>format_targets\<close> returns
  the list that starts with the pointing dictionary, which \<open>calculate_targets\<close> builds
  as \<open>{source_id: target_name, ra: ra_deg, dec: dec_deg}\<close>, followed by one entry for
  each row in the order of the rows, with the row's \<open>source_id\<close>, \<open>ra\<close> and \<open>decl\<close>
  (as \<open>dec\<close>) and without its distance. For no rows it is the one-element list of the
  pointing.
\<close>

theorem format_targets_list:
  "format_targets df
     (JObject [(''source_id'', JString target_name), (''ra'', JNumber ra_deg),
               (''dec'', JNumber dec_deg)]) =
     JArray (JObject [(''source_id'', JString target_name), (''ra'', JNumber ra_deg),
                      (''dec'', JNumber dec_deg)] #
       map (\<lambda>t. JObject [(''source_id'', JString (row_source_id t)),
                           (''ra'', JNumber (row_ra t)),
                           (''dec'', JNumber (row_decl t))]) df)
   \<and> format_targets df pointing_dict =
     JArray (pointing_dict #
       map (\<lambda>t. JObject [(''source_id'', JString (row_source_id t)),
                           (''ra'', JNumber (row_ra t)),
                           (''dec'', JNumber (row_decl t))]) df)
   \<and> format_targets [] pointing_dict = JArray [pointing_dict]"
  by (simp add: format_targets_def format_loop_append source_dict_def)

section \<open>Properties of the listener\<close>

text \<open>
  C7. A message that does not split on \<open>:\<close> into exactly seven fields is logged as a
  warning and dropped without an exception: nothing is written to Redis, nothing is
  published, no query is sent to the database, and the loop goes on with the next
  message.
\<close>

theorem malformed_message_dropped:
  assumes "length (split CHR '':'' msg_data) \<noteq> 7"
  shows "parse_msg float self msg_data w =
           (Inr (), w\<lparr>logged := logged w @ [Warning_unrecognised msg_data]\<rparr>)
         \<and> redis (snd (parse_msg float self msg_data w)) = redis w
         \<and> published (snd (parse_msg float self msg_data w)) = published w
         \<and> queries (snd (parse_msg float self msg_data w)) = queries w
         \<and> listen_loop float self (msg_data # msgs) w =
             listen_loop float self msgs
               (w\<lparr>logged := logged w @ [Warning_unrecognised msg_data]\<rparr>)"
  using assms by (simp add: parse_msg_def log_entry_def)

text \<open>A message of six fields and one of eight.\<close>

theorem malformed_message_dropped_witness:
  "parse_msg py_float (selector_with failing_engine)
     ''MeerKAT:array1:169000000:3C286:202.78:30.51'' fresh_world =
     (Inr (), fresh_world\<lparr>logged :=
        [Warning_unrecognised ''MeerKAT:array1:169000000:3C286:202.78:30.51'']\<rparr>)
   \<and> parse_msg py_float (selector_with failing_engine)
       ''MeerKAT:array1:169000000:3C286:202.78:30.51:1420.0:x'' fresh_world =
     (Inr (), fresh_world\<lparr>logged :=
        [Warning_unrecognised ''MeerKAT:array1:169000000:3C286:202.78:30.51:1420.0:x'']\<rparr>)"
proof -
  have six: "length (split CHR '':'' ''MeerKAT:array1:169000000:3C286:202.78:30.51'') \<noteq> 7"
    unfolding split_six_fields by simp
  have eight:
    "length (split CHR '':'' ''MeerKAT:array1:169000000:3C286:202.78:30.51:1420.0:x'') \<noteq> 7"
    unfolding split_eight_fields by simp
  show ?thesis
    using malformed_message_dropped [OF six, where float = py_float
        and self = "selector_with failing_engine" and w = fresh_world and msgs = "[]"]
      malformed_message_dropped [OF eight, where float = py_float
        and self = "selector_with failing_engine" and w = fresh_world and msgs = "[]"]
    by (simp add: fresh_world_def)
qed

text \<open>
  C3, as the specification states it: a message of seven fields with a number that
  does not parse is fatal to that message only, is logged, and the listener goes on
  with the messages after it. In the source nothing catches the \<open>ValueError\<close> of
  \<open>float\<close>. Given a message whose right ascension is \<open>abc\<close> and then a well-formed
  one, \<open>start\<close> ends with \<open>ValueError\<close> after logging that it processes the first, and
  the second is never handled; given the second alone, its key is published.
\<close>

theorem unparseable_number_ends_listener:
  "start py_float (selector_with (table_engine []))
     [''MeerKAT:array1:169000000:3C286:abc:30.51:1420.0'',
      ''MeerKAT:array1:169000001:3C286:202.78:30.51:1420.0''] fresh_world =
     (Inl ValueError,
      \<lparr>redis = Map.empty, published = [], queries = [],
       logged = [Info_starting, Info_listening ''pointings'',
                 Info_processing ''MeerKAT:array1:169000000:3C286:abc:30.51:1420.0'']\<rparr>)
   \<and> published (snd (start py_float (selector_with (table_engine []))
         [''MeerKAT:array1:169000001:3C286:202.78:30.51:1420.0''] fresh_world)) =
       [(''targets'', ''targets:MeerKAT:array1:169000001'')]"
proof -
  have bad: "parse_msg py_float self ''MeerKAT:array1:169000000:3C286:abc:30.51:1420.0'' w =
      (Inl ValueError,
       log_entry (Info_processing ''MeerKAT:array1:169000000:3C286:abc:30.51:1420.0'') w)"
    for self w
    unfolding parse_msg_def split_unparseable Let_def by (simp add: py_float_examples)
  have good: "parse_msg py_float (selector_with (table_engine []))
        ''MeerKAT:array1:169000001:3C286:202.78:30.51:1420.0'' w =
      calculate_targets (selector_with (table_engine [])) ''array1'' ''3C286'' 202.78 30.51 1420
        ''MeerKAT:array1:169000001'' (log_entry (Info_processing
           ''MeerKAT:array1:169000001:3C286:202.78:30.51:1420.0'') w)" for w
    using parse_msg_pointing [OF split_pointing py_float_examples(2,3,4)] by simp
  have eng: "engine (selector_with (table_engine [])) q = Inr []" for q
    by (simp add: selector_with_def table_engine_def run_query_Nil)
  have first: "start py_float (selector_with (table_engine []))
     [''MeerKAT:array1:169000000:3C286:abc:30.51:1420.0'',
      ''MeerKAT:array1:169000001:3C286:202.78:30.51:1420.0''] fresh_world =
     (Inl ValueError,
      \<lparr>redis = Map.empty, published = [], queries = [],
       logged = [Info_starting, Info_listening ''pointings'',
                 Info_processing ''MeerKAT:array1:169000000:3C286:abc:30.51:1420.0'']\<rparr>)"
    unfolding start_def listen_loop.simps bad
    by (simp add: log_entry_def fresh_world_def selector_with_def)
  have second: "published (snd (start py_float (selector_with (table_engine []))
         [''MeerKAT:array1:169000001:3C286:202.78:30.51:1420.0''] fresh_world)) =
       [(''targets'', ''targets:MeerKAT:array1:169000001'')]"
    unfolding start_def listen_loop.simps good
      calculate_targets_returns [of 1420 "selector_with (table_engine [])", OF _ eng, simplified]
    by (simp add: log_entry_def fresh_world_def selector_with_def)
  from first second show ?thesis by simp
qed

text \<open>
  C3, amended. For a message that splits into exactly seven fields and whose \<open>ra\<close>,
  \<open>dec\<close> or centre frequency field does not parse as a number, \<open>float\<close> raises
  \<open>ValueError\<close>, which nothing catches: after the log entry that the message is being
  processed, the exception leaves \<open>parse_msg\<close> and the receive loop, nothing is stored
  or published for the message, no query is sent, and the messages after it are not
  processed. This holds for whatever texts the builtin \<open>float\<close> rejects.
\<close>

theorem unparseable_number_raises:
  assumes "length (split CHR '':'' msg_data) = 7"
    and "float (split CHR '':'' msg_data ! 4) = None
         \<or> float (split CHR '':'' msg_data ! 5) = None
         \<or> float (split CHR '':'' msg_data ! 6) = None"
  shows "parse_msg float self msg_data w =
           (Inl ValueError, w\<lparr>logged := logged w @ [Info_processing msg_data]\<rparr>)
         \<and> redis (snd (parse_msg float self msg_data w)) = redis w
         \<and> published (snd (parse_msg float self msg_data w)) = published w
         \<and> queries (snd (parse_msg float self msg_data w)) = queries w
         \<and> listen_loop float self (msg_data # msgs) w =
           (Inl ValueError, w\<lparr>logged := logged w @ [Info_processing msg_data]\<rparr>)"
proof -
  have "parse_msg float self msg_data w =
           (Inl ValueError, w\<lparr>logged := logged w @ [Info_processing msg_data]\<rparr>)"
    using assms
    by (auto simp: parse_msg_def Let_def log_entry_def split: option.splits)
  then show ?thesis by simp
qed

theorem unparseable_number_raises_witness:
  "listen_loop py_float (selector_with (table_engine []))
     [''MeerKAT:array1:169000000:3C286:abc:30.51:1420.0'',
      ''MeerKAT:array1:169000001:3C286:202.78:30.51:1420.0''] fresh_world =
     (Inl ValueError, fresh_world\<lparr>logged :=
        [Info_processing ''MeerKAT:array1:169000000:3C286:abc:30.51:1420.0'']\<rparr>)"
proof -
  have seven:
    "length (split CHR '':'' ''MeerKAT:array1:169000000:3C286:abc:30.51:1420.0'') = 7"
    unfolding split_unparseable by simp
  have ra: "py_float (split CHR '':'' ''MeerKAT:array1:169000000:3C286:abc:30.51:1420.0'' ! 4)
              = None
            \<or> py_float (split CHR '':'' ''MeerKAT:array1:169000000:3C286:abc:30.51:1420.0'' ! 5)
              = None
            \<or> py_float (split CHR '':'' ''MeerKAT:array1:169000000:3C286:abc:30.51:1420.0'' ! 6)
              = None"
    unfolding split_unparseable by (simp add: py_float_examples)
  show ?thesis
    using unparseable_number_raises [OF seven ra, where self = "selector_with (table_engine [])"
        and msgs = "[''MeerKAT:array1:169000001:3C286:202.78:30.51:1420.0'']"
        and w = fresh_world]
    by (simp add: fresh_world_def)
qed

text \<open>
  C4, as the specification states it: when the catalog query of a pointing fails, the
  failure is logged, nothing is stored or published for that pointing, and the listener
  goes on with the next message. In the source nothing catches the exception of the
  database layer and nothing logs it. With an engine whose queries fail and two
  well-formed messages, \<open>start\<close> ends with the exception of the first query: the log
  ends with the entry before the query, one query was sent, and the second message is
  never handled. With an engine that answers, both keys are published.
\<close>

theorem catalog_failure_ends_listener:
  "fst (start py_float (selector_with failing_engine)
     [''MeerKAT:array1:169000001:3C286:202.78:30.51:1420.0'',
      ''MeerKAT:array1:169000002:J0408:62.08:-65.75:1420.0''] fresh_world) = Inl Catalog_error
   \<and> logged (snd (start py_float (selector_with failing_engine)
     [''MeerKAT:array1:169000001:3C286:202.78:30.51:1420.0'',
      ''MeerKAT:array1:169000002:J0408:62.08:-65.75:1420.0''] fresh_world)) =
     [Info_starting, Info_listening ''pointings'',
      Info_processing ''MeerKAT:array1:169000001:3C286:202.78:30.51:1420.0'',
      Info_calculating ''3C286'' 202.78 30.51, Info_applying_bounding_box]
   \<and> length (queries (snd (start py_float (selector_with failing_engine)
     [''MeerKAT:array1:169000001:3C286:202.78:30.51:1420.0'',
      ''MeerKAT:array1:169000002:J0408:62.08:-65.75:1420.0''] fresh_world))) = 1
   \<and> published (snd (start py_float (selector_with failing_engine)
     [''MeerKAT:array1:169000001:3C286:202.78:30.51:1420.0'',
      ''MeerKAT:array1:169000002:J0408:62.08:-65.75:1420.0''] fresh_world)) = []
   \<and> published (snd (start py_float (selector_with (table_engine []))
     [''MeerKAT:array1:169000001:3C286:202.78:30.51:1420.0'',
      ''MeerKAT:array1:169000002:J0408:62.08:-65.75:1420.0''] fresh_world)) =
     [(''targets'', ''targets:MeerKAT:array1:169000001''),
      (''targets'', ''targets:MeerKAT:array1:169000002'')]"
proof -
  have p1: "parse_msg py_float self ''MeerKAT:array1:169000001:3C286:202.78:30.51:1420.0'' w =
      calculate_targets self ''array1'' ''3C286'' 202.78 30.51 1420
        ''MeerKAT:array1:169000001'' (log_entry (Info_processing
           ''MeerKAT:array1:169000001:3C286:202.78:30.51:1420.0'') w)" for self w
    using parse_msg_pointing [OF split_pointing py_float_examples(2,3,4)] by simp
  have p2: "parse_msg py_float self ''MeerKAT:array1:169000002:J0408:62.08:-65.75:1420.0'' w =
      calculate_targets self ''array1'' ''J0408'' 62.08 (- 65.75) 1420
        ''MeerKAT:array1:169000002'' (log_entry (Info_processing
           ''MeerKAT:array1:169000002:J0408:62.08:-65.75:1420.0'') w)" for self w
    using parse_msg_pointing [OF split_next_pointing py_float_examples(5,6,4)] by simp
  have down: "engine (selector_with failing_engine) q = Inl Catalog_error" for q
    by (simp add: selector_with_def failing_engine_def)
  have up: "engine (selector_with (table_engine [])) q = Inr []" for q
    by (simp add: selector_with_def table_engine_def run_query_Nil)
  note raises = calculate_targets_raises
    [of 1420 "selector_with failing_engine", OF _ down, simplified]
  note returns = calculate_targets_returns
    [of 1420 "selector_with (table_engine [])", OF _ up, simplified]
  have failing: "start py_float (selector_with failing_engine)
     [''MeerKAT:array1:169000001:3C286:202.78:30.51:1420.0'',
      ''MeerKAT:array1:169000002:J0408:62.08:-65.75:1420.0''] fresh_world =
     calculate_targets (selector_with failing_engine) ''array1'' ''3C286'' 202.78 30.51 1420
        ''MeerKAT:array1:169000001'' (log_entry (Info_processing
           ''MeerKAT:array1:169000001:3C286:202.78:30.51:1420.0'')
          (log_entry (Info_listening (pointing_channel (selector_with failing_engine)))
             (log_entry Info_starting fresh_world)))"
    unfolding start_def listen_loop.simps p1 raises by simp
  have answering: "published (snd (start py_float (selector_with (table_engine []))
     [''MeerKAT:array1:169000001:3C286:202.78:30.51:1420.0'',
      ''MeerKAT:array1:169000002:J0408:62.08:-65.75:1420.0''] fresh_world)) =
     [(''targets'', ''targets:MeerKAT:array1:169000001''),
      (''targets'', ''targets:MeerKAT:array1:169000002'')]"
    unfolding start_def listen_loop.simps p1 p2 returns
    by (simp add: returns log_entry_def fresh_world_def selector_with_def)
  show ?thesis
    unfolding failing raises answering
    by (simp add: log_entry_def fresh_world_def selector_with_def)
qed

text \<open>
  C4, amended. For a pointing message whose catalog query fails, the exception is
  neither caught nor logged: nothing is stored in Redis and nothing is published for
  the message, the log ends with the entry written before the query, and the exception
  leaves \<open>calculate_targets\<close>, \<open>parse_msg\<close> and the receive loop, so that the
  messages after it are not processed.
\<close>

theorem catalog_failure_raises:
  assumes "split CHR '':'' msg_data =
             [telescope_name, subarray, pktstart_ts, target_name, ra_s, dec_s, fe_s]"
    and "float ra_s = Some (Finite ra_deg)"
    and "float dec_s = Some (Finite dec_deg)"
    and "float fe_s = Some (Finite fecenter)"
    and "fecenter \<noteq> 0"
    and "engine self (targets_query (box_query (query_bounds (deg2rad ra_deg) (deg2rad dec_deg)
           (beam_radius_of fecenter))) ra_deg dec_deg (beam_radius_of fecenter)) = Inl e"
  shows "fst (parse_msg float self msg_data w) = Inl e
         \<and> redis (snd (parse_msg float self msg_data w)) = redis w
         \<and> published (snd (parse_msg float self msg_data w)) = published w
         \<and> logged (snd (parse_msg float self msg_data w)) =
             logged w @ [Info_processing msg_data,
                         Info_calculating target_name ra_deg dec_deg,
                         Info_applying_bounding_box]
         \<and> listen_loop float self (msg_data # msgs) w = parse_msg float self msg_data w"
  unfolding listen_loop.simps parse_msg_pointing [OF assms(1-4)]
    calculate_targets_raises [OF assms(5,6)]
  by (simp add: log_entry_def)

theorem catalog_failure_raises_witness:
  "fst (parse_msg py_float (selector_with failing_engine)
          ''MeerKAT:array1:169000001:3C286:202.78:30.51:1420.0'' fresh_world) = Inl Catalog_error
   \<and> redis (snd (parse_msg py_float (selector_with failing_engine)
          ''MeerKAT:array1:169000001:3C286:202.78:30.51:1420.0'' fresh_world)) = Map.empty
   \<and> published (snd (parse_msg py_float (selector_with failing_engine)
          ''MeerKAT:array1:169000001:3C286:202.78:30.51:1420.0'' fresh_world)) = []
   \<and> logged (snd (parse_msg py_float (selector_with failing_engine)
          ''MeerKAT:array1:169000001:3C286:202.78:30.51:1420.0'' fresh_world)) =
       [Info_processing ''MeerKAT:array1:169000001:3C286:202.78:30.51:1420.0'',
        Info_calculating ''3C286'' 202.78 30.51, Info_applying_bounding_box]"
proof -
  have nonzero: "(1420 :: real) \<noteq> 0" by simp
  have down: "engine (selector_with failing_engine) q = Inl Catalog_error" for q
    by (simp add: selector_with_def failing_engine_def)
  show ?thesis
    using catalog_failure_raises [OF split_pointing py_float_examples(2,3,4) nonzero down,
        where w = fresh_world and msgs = "[]"]
    by (simp add: fresh_world_def)
qed

end
